theory Spec2Isabelle
  imports Complex_Main "HOL-Library.Log_Nat"
begin

section \<open>Arithmetic of the script\<close>

text \<open>
  \<^verbatim>\<open>app.py\<close> computes with Python numbers: the sliders give \<^verbatim>\<open>int\<close> and \<^verbatim>\<open>float\<close>
  values, and every operation that involves a float is an IEEE 754 binary64 operation,
  that is the exact result rounded to the nearest double. The embedding keeps the
  rounding as a parameter \<open>rnd\<close> of every definition, so that one text of the program
  has two readings:
  \<^item> \<open>exact\<close>, no rounding: the arithmetic of the real numbers in which the
    specification states its formulas (any ordered field);
  \<^item> \<open>b64\<close>, round to nearest, ties to even, 53 bit significand, over the rationals:
    what the Python interpreter computes.
\<close>

definition fadd :: "('a \<Rightarrow> 'a) \<Rightarrow> 'a::linordered_field \<Rightarrow> 'a \<Rightarrow> 'a" where
  "fadd rnd x y = rnd (x + y)"

definition fsub :: "('a \<Rightarrow> 'a) \<Rightarrow> 'a::linordered_field \<Rightarrow> 'a \<Rightarrow> 'a" where
  "fsub rnd x y = rnd (x - y)"

definition fmul :: "('a \<Rightarrow> 'a) \<Rightarrow> 'a::linordered_field \<Rightarrow> 'a \<Rightarrow> 'a" where
  "fmul rnd x y = rnd (x * y)"

definition fdiv :: "('a \<Rightarrow> 'a) \<Rightarrow> 'a::linordered_field \<Rightarrow> 'a \<Rightarrow> 'a" where
  "fdiv rnd x y = rnd (x / y)"

text \<open>A float literal of the source text, such as \<^verbatim>\<open>0.2\<close>, denotes the rounded decimal.\<close>

definition lit :: "('a \<Rightarrow> 'a) \<Rightarrow> 'a::linordered_field \<Rightarrow> 'a" where
  "lit rnd x = rnd x"

definition exact :: "'a::linordered_field \<Rightarrow> 'a" where
  "exact x = x"

subsection \<open>Rounding to binary64\<close>

definition pow2 :: "int \<Rightarrow> rat" where
  "pow2 k = (if 0 \<le> k then 2 ^ nat k else 1 / 2 ^ nat (- k))"

text \<open>The integer \<open>k\<close> with \<open>2^k \<le> x < 2^(k+1)\<close>, for \<open>x > 0\<close>.\<close>

definition ilog2 :: "rat \<Rightarrow> int" where
  "ilog2 x = (if 1 \<le> x then bitlen \<lfloor>x\<rfloor> - 1 else - bitlen (\<lceil>1 / x\<rceil> - 1))"

definition round_half_even :: "rat \<Rightarrow> int" where
  "round_half_even x =
     (let n = \<lfloor>x\<rfloor>; d = x - of_int n in
      if d < 1 / 2 then n
      else if 1 / 2 < d then n + 1
      else if even n then n else n + 1)"

text \<open>
  The significand has 53 bits, so a number in \<open>[2^k, 2^(k+1))\<close> is rounded to a multiple
  of \<open>2^(k-52)\<close>; below the normal range the spacing stays \<open>2^(-1074)\<close>. Results of
  magnitude \<open>2^1024\<close> and more, which the machine replaces by an infinity, are outside this
  model: the sliders keep every quantity of the script below \<open>2^11\<close>.
\<close>

definition b64 :: "rat \<Rightarrow> rat" where
  "b64 x =
     (if x = 0 then 0
      else let e = max (ilog2 \<bar>x\<bar> - 52) (- 1074) in
           sgn x * of_int (round_half_even (\<bar>x\<bar> / pow2 e)) * pow2 e)"

section \<open>The inputs\<close>

text \<open>
  The four sidebar sliders. \<^verbatim>\<open>c_tv\<close> is an \<^verbatim>\<open>int\<close> between 20 and 100 in steps of 5,
  \<^verbatim>\<open>c_pilot\<close> a \<^verbatim>\<open>float\<close> between 1.0 and 5.0 in steps of 0.5, counted here in halves;
  the two rates are read in percent (30 to 80 and 5 to 30, in steps of 5) and divided
  by \<^verbatim>\<open>100.0\<close>.
\<close>

record sliders =
  tv_slider :: int
  pilot_halves :: int
  flop_percent :: int
  hit_percent :: int

definition slider_ok :: "sliders \<Rightarrow> bool" where
  "slider_ok s \<longleftrightarrow>
     20 \<le> tv_slider s \<and> tv_slider s \<le> 100 \<and> tv_slider s mod 5 = 0 \<and>
     2 \<le> pilot_halves s \<and> pilot_halves s \<le> 10 \<and>
     30 \<le> flop_percent s \<and> flop_percent s \<le> 80 \<and> flop_percent s mod 5 = 0 \<and>
     5 \<le> hit_percent s \<and> hit_percent s \<le> 30 \<and> hit_percent s mod 5 = 0"

record 'a params =
  c_tv :: 'a
  c_pilot :: 'a
  flop_rate :: 'a
  hit_rate :: 'a

definition read_sliders :: "('a \<Rightarrow> 'a) \<Rightarrow> sliders \<Rightarrow> ('a::linordered_field) params" where
  "read_sliders rnd s =
     \<lparr>c_tv = of_int (tv_slider s),
      c_pilot = of_int (pilot_halves s) / 2,
      flop_rate = fdiv rnd (of_int (flop_percent s)) (lit rnd 100),
      hit_rate = fdiv rnd (of_int (hit_percent s)) (lit rnd 100)\<rparr>"

section \<open>The financial logic\<close>

text \<open>\<^verbatim>\<open>avg_rate = 1.0 - flop_rate - hit_rate\<close>\<close>

definition avg_rate :: "('a \<Rightarrow> 'a) \<Rightarrow> ('a::linordered_field) params \<Rightarrow> 'a" where
  "avg_rate rnd p = fsub rnd (fsub rnd (lit rnd 1.0) (flop_rate p)) (hit_rate p)"

text \<open>
  The standard portfolio size, a constant of the script. \<^verbatim>\<open>N\<close> and \<^verbatim>\<open>c_tv\<close> are Python
  integers, so \<^verbatim>\<open>N * c_tv\<close> is an exact integer product and an integer operand of a float
  operation is converted first; for the integers the sliders allow (all below \<open>2^53\<close>)
  neither step rounds, and \<open>b64\<close> leaves such integers unchanged.
\<close>

definition N :: "'a::linordered_field" where
  "N = 10"

text \<open>Revenue assumptions, as multiples of the TV cost.\<close>

definition rev_flop :: "('a \<Rightarrow> 'a) \<Rightarrow> ('a::linordered_field) params \<Rightarrow> 'a" where
  "rev_flop rnd p = fmul rnd (c_tv p) (lit rnd 0.2)"

definition rev_avg :: "('a \<Rightarrow> 'a) \<Rightarrow> ('a::linordered_field) params \<Rightarrow> 'a" where
  "rev_avg rnd p = fmul rnd (c_tv p) (lit rnd 1.1)"

definition rev_hit :: "('a \<Rightarrow> 'a) \<Rightarrow> ('a::linordered_field) params \<Rightarrow> 'a" where
  "rev_hit rnd p = fmul rnd (c_tv p) (lit rnd 2.0)"

subsection \<open>Legacy model\<close>

definition leg_cost :: "('a \<Rightarrow> 'a) \<Rightarrow> ('a::linordered_field) params \<Rightarrow> 'a" where
  "leg_cost rnd p = fmul rnd N (c_tv p)"

definition leg_rev :: "('a \<Rightarrow> 'a) \<Rightarrow> ('a::linordered_field) params \<Rightarrow> 'a" where
  "leg_rev rnd p =
     fmul rnd N
       (fadd rnd
          (fadd rnd (fmul rnd (flop_rate p) (rev_flop rnd p))
                    (fmul rnd (avg_rate rnd p) (rev_avg rnd p)))
          (fmul rnd (hit_rate p) (rev_hit rnd p)))"

definition leg_roi :: "('a \<Rightarrow> 'a) \<Rightarrow> ('a::linordered_field) params \<Rightarrow> 'a" where
  "leg_roi rnd p = fsub rnd (leg_rev rnd p) (leg_cost rnd p)"

subsection \<open>Proposed model\<close>

definition pilot_spend :: "('a \<Rightarrow> 'a) \<Rightarrow> ('a::linordered_field) params \<Rightarrow> 'a" where
  "pilot_spend rnd p = fmul rnd N (c_pilot p)"

definition flops_killed :: "('a \<Rightarrow> 'a) \<Rightarrow> ('a::linordered_field) params \<Rightarrow> 'a" where
  "flops_killed rnd p = fmul rnd N (flop_rate p)"

definition cost_avg_show :: "('a \<Rightarrow> 'a) \<Rightarrow> ('a::linordered_field) params \<Rightarrow> 'a" where
  "cost_avg_show rnd p = fadd rnd (c_pilot p) (fmul rnd (c_tv p) (lit rnd 0.85))"

definition cost_hit_show :: "('a \<Rightarrow> 'a) \<Rightarrow> ('a::linordered_field) params \<Rightarrow> 'a" where
  "cost_hit_show rnd p = fadd rnd (c_pilot p) (fmul rnd (c_tv p) (lit rnd 1.20))"

definition prop_cost_avg :: "('a \<Rightarrow> 'a) \<Rightarrow> ('a::linordered_field) params \<Rightarrow> 'a" where
  "prop_cost_avg rnd p = fmul rnd (fmul rnd N (avg_rate rnd p)) (cost_avg_show rnd p)"

definition prop_cost_hits :: "('a \<Rightarrow> 'a) \<Rightarrow> ('a::linordered_field) params \<Rightarrow> 'a" where
  "prop_cost_hits rnd p = fmul rnd (fmul rnd N (hit_rate p)) (cost_hit_show rnd p)"

definition prop_total_cost :: "('a \<Rightarrow> 'a) \<Rightarrow> ('a::linordered_field) params \<Rightarrow> 'a" where
  "prop_total_cost rnd p =
     fadd rnd (fadd rnd (pilot_spend rnd p) (prop_cost_avg rnd p)) (prop_cost_hits rnd p)"

definition prop_rev :: "('a \<Rightarrow> 'a) \<Rightarrow> ('a::linordered_field) params \<Rightarrow> 'a" where
  "prop_rev rnd p =
     fadd rnd (fmul rnd (fmul rnd N (avg_rate rnd p)) (rev_avg rnd p))
              (fmul rnd (fmul rnd N (hit_rate p)) (rev_hit rnd p))"

definition prop_roi :: "('a \<Rightarrow> 'a) \<Rightarrow> ('a::linordered_field) params \<Rightarrow> 'a" where
  "prop_roi rnd p = fsub rnd (prop_rev rnd p) (prop_total_cost rnd p)"

definition cash_freed :: "('a \<Rightarrow> 'a) \<Rightarrow> ('a::linordered_field) params \<Rightarrow> 'a" where
  "cash_freed rnd p = fsub rnd (prop_roi rnd p) (leg_roi rnd p)"

subsection \<open>Waterfall steps\<close>

definition savings_on_flops :: "('a \<Rightarrow> 'a) \<Rightarrow> ('a::linordered_field) params \<Rightarrow> 'a" where
  "savings_on_flops rnd p = fmul rnd (fmul rnd N (flop_rate p)) (c_tv p)"

definition cost_of_piloting :: "('a \<Rightarrow> 'a) \<Rightarrow> ('a::linordered_field) params \<Rightarrow> 'a" where
  "cost_of_piloting rnd p = fmul rnd (- 1) (fmul rnd N (c_pilot p))"

definition contract_variance :: "('a \<Rightarrow> 'a) \<Rightarrow> ('a::linordered_field) params \<Rightarrow> 'a" where
  "contract_variance rnd p =
     fmul rnd
       (fsub rnd (leg_cost rnd p)
          (fadd rnd
             (fadd rnd
                (fadd rnd (fmul rnd (fmul rnd N (flop_rate p)) (c_tv p)) (prop_cost_avg rnd p))
                (prop_cost_hits rnd p))
             (cost_of_piloting rnd p)))
       (- 1)"

definition lost_salvage_rev :: "('a \<Rightarrow> 'a) \<Rightarrow> ('a::linordered_field) params \<Rightarrow> 'a" where
  "lost_salvage_rev rnd p =
     fmul rnd (- 1) (fmul rnd (fmul rnd N (flop_rate p)) (rev_flop rnd p))"

subsection \<open>Capital deployment\<close>

definition leg_waste :: "('a \<Rightarrow> 'a) \<Rightarrow> ('a::linordered_field) params \<Rightarrow> 'a" where
  "leg_waste rnd p = fmul rnd (fmul rnd N (flop_rate p)) (c_tv p)"

definition leg_productive :: "('a \<Rightarrow> 'a) \<Rightarrow> ('a::linordered_field) params \<Rightarrow> 'a" where
  "leg_productive rnd p = fsub rnd (leg_cost rnd p) (leg_waste rnd p)"

definition prop_waste :: "('a \<Rightarrow> 'a) \<Rightarrow> ('a::linordered_field) params \<Rightarrow> 'a" where
  "prop_waste rnd p = fmul rnd (fmul rnd N (flop_rate p)) (c_pilot p)"

definition prop_productive :: "('a \<Rightarrow> 'a) \<Rightarrow> ('a::linordered_field) params \<Rightarrow> 'a" where
  "prop_productive rnd p = fsub rnd (prop_total_cost rnd p) (prop_waste rnd p)"

section \<open>The script as a whole\<close>

text \<open>
  When \<^verbatim>\<open>avg_rate < 0\<close> the script shows an error in the sidebar and calls
  \<^verbatim>\<open>st.stop()\<close>: nothing below that line runs. Otherwise it renders three metric cards,
  the waterfall chart (its \<^verbatim>\<open>y\<close> list) and the stacked bar chart (the two value columns
  of \<^verbatim>\<open>df_bar\<close>).
\<close>

datatype halted = Stopped

record 'a rendered =
  metric_cards :: "'a list"
  waterfall_y :: "'a list"
  wasted_capital :: "'a list"
  productive_capital :: "'a list"

definition evaluate :: "('a \<Rightarrow> 'a) \<Rightarrow> ('a::linordered_field) params \<Rightarrow> halted + 'a rendered" where
  "evaluate rnd p =
     (if avg_rate rnd p < 0 then Inl Stopped
      else Inr
        \<lparr>metric_cards = [leg_roi rnd p, prop_roi rnd p, cash_freed rnd p],
         waterfall_y =
           [leg_roi rnd p, savings_on_flops rnd p, cost_of_piloting rnd p,
            lost_salvage_rev rnd p, contract_variance rnd p, prop_roi rnd p],
         wasted_capital = [leg_waste rnd p, prop_waste rnd p],
         productive_capital = [leg_productive rnd p, prop_productive rnd p]\<rparr>)"

definition app :: "('a \<Rightarrow> 'a) \<Rightarrow> sliders \<Rightarrow> halted + ('a::linordered_field) rendered" where
  "app rnd s = evaluate rnd (read_sliders rnd s)"

text \<open>The sliders as the page first shows them: 50, 2.0, 60 percent, 10 percent.\<close>

definition slider_defaults :: sliders where
  "slider_defaults = \<lparr>tv_slider = 50, pilot_halves = 4, flop_percent = 60, hit_percent = 10\<rparr>"

text \<open>
  The precondition under which the specification speaks of a valid input: rates in
  \<open>[0, 1]\<close> whose sum is at most 1, and positive costs.
\<close>

definition valid_input :: "('a::linordered_field) params \<Rightarrow> bool" where
  "valid_input p \<longleftrightarrow>
     0 \<le> flop_rate p \<and> flop_rate p \<le> 1 \<and> 0 \<le> hit_rate p \<and> hit_rate p \<le> 1 \<and>
     flop_rate p + hit_rate p \<le> 1 \<and> 0 < c_tv p \<and> 0 < c_pilot p"

text \<open>
  Flop slider at 80 percent, blockbuster slider at 20 percent: the two rates add up to
  100 percent, the case the sidebar message still allows.
\<close>

definition boundary_sliders :: sliders where
  "boundary_sliders = \<lparr>tv_slider = 50, pilot_halves = 4, flop_percent = 80, hit_percent = 20\<rparr>"

text \<open>Cheapest TV production, dearest pilot, fewest flops, most blockbusters.\<close>

definition dominated_sliders :: sliders where
  "dominated_sliders = \<lparr>tv_slider = 20, pilot_halves = 10, flop_percent = 30, hit_percent = 30\<rparr>"

text \<open>Agreement of a computed double with a stated figure, up to \<open>10^(-9)\<close>.\<close>

definition within_tolerance :: "rat \<Rightarrow> rat \<Rightarrow> bool" where
  "within_tolerance x y \<longleftrightarrow> \<bar>x - y\<bar> < 1 / 10 ^ 9"

section \<open>Properties in exact arithmetic\<close>

lemmas arith_defs = fadd_def fsub_def fmul_def fdiv_def lit_def exact_def N_def

lemmas revenue_defs = rev_flop_def rev_avg_def rev_hit_def avg_rate_def

lemmas legacy_defs = leg_cost_def leg_rev_def leg_roi_def

lemmas proposed_defs =
  pilot_spend_def cost_avg_show_def cost_hit_show_def prop_cost_avg_def prop_cost_hits_def
  prop_total_cost_def prop_rev_def prop_roi_def

lemmas waterfall_defs =
  savings_on_flops_def cost_of_piloting_def contract_variance_def lost_salvage_rev_def

lemmas capital_defs = leg_waste_def leg_productive_def prop_waste_def prop_productive_def

lemma avg_rate_exact: "avg_rate exact p = 1 - flop_rate p - hit_rate p"
  by (simp add: avg_rate_def arith_defs)

lemma leg_rev_exact:
  "leg_rev exact p = 10 * c_tv p * (11 / 10 - 9 / 10 * flop_rate p + 9 / 10 * hit_rate p)"
  by (simp add: legacy_defs revenue_defs arith_defs field_simps)

lemma prop_rev_exact:
  "prop_rev exact p = 10 * c_tv p * (11 / 10 - 11 / 10 * flop_rate p + 9 / 10 * hit_rate p)"
  by (simp add: proposed_defs revenue_defs arith_defs field_simps)

text \<open>
  In exact arithmetic the script stops precisely when the two rates add up to more than 1;
  a sum of exactly 1 passes.
\<close>

lemma evaluate_exact_stops_iff:
  "evaluate exact p = Inl Stopped \<longleftrightarrow> 1 < flop_rate p + hit_rate p"
  by (auto simp add: evaluate_def avg_rate_exact)

lemma read_defaults_exact:
  "read_sliders exact slider_defaults =
     \<lparr>c_tv = 50, c_pilot = 2, flop_rate = 0.60, hit_rate = 0.10\<rparr>"
  by (simp add: read_sliders_def slider_defaults_def arith_defs)

lemma read_dominated_exact:
  "read_sliders exact dominated_sliders =
     \<lparr>c_tv = 20, c_pilot = 5, flop_rate = 0.30, hit_rate = 0.30\<rparr>"
  by (simp add: read_sliders_def dominated_sliders_def arith_defs)

section \<open>Binary64 evaluation at the default sliders\<close>

text \<open>
  The value of every variable of the script, as the interpreter computes it when the
  sliders are left at their defaults. Each lemma unfolds one assignment and rounds.
\<close>

lemma defaults_c_tv: "c_tv (read_sliders b64 slider_defaults) = 50"
  by code_simp

lemma defaults_c_pilot: "c_pilot (read_sliders b64 slider_defaults) = 2"
  by code_simp

lemma defaults_flop_rate: "flop_rate (read_sliders b64 slider_defaults) = 5404319552844595 / 9007199254740992"
  by code_simp

lemma defaults_hit_rate: "hit_rate (read_sliders b64 slider_defaults) = 3602879701896397 / 36028797018963968"
  by code_simp

lemma defaults_avg_rate: "avg_rate b64 (read_sliders b64 slider_defaults) = 1351079888211149 / 4503599627370496"
  unfolding avg_rate_def defaults_c_tv defaults_c_pilot defaults_flop_rate defaults_hit_rate
  by code_simp

lemma defaults_rev_flop: "rev_flop b64 (read_sliders b64 slider_defaults) = 10"
  unfolding rev_flop_def defaults_c_tv defaults_c_pilot defaults_flop_rate defaults_hit_rate defaults_avg_rate
  by code_simp

lemma defaults_rev_avg: "rev_avg b64 (read_sliders b64 slider_defaults) = 7740561859543041 / 140737488355328"
  unfolding rev_avg_def defaults_c_tv defaults_c_pilot defaults_flop_rate defaults_hit_rate defaults_avg_rate defaults_rev_flop
  by code_simp

lemma defaults_rev_hit: "rev_hit b64 (read_sliders b64 slider_defaults) = 100"
  unfolding rev_hit_def defaults_c_tv defaults_c_pilot defaults_flop_rate defaults_hit_rate defaults_avg_rate defaults_rev_flop defaults_rev_avg
  by code_simp

lemma defaults_leg_cost: "leg_cost b64 (read_sliders b64 slider_defaults) = 500"
  unfolding leg_cost_def defaults_c_tv defaults_c_pilot defaults_flop_rate defaults_hit_rate defaults_avg_rate defaults_rev_flop defaults_rev_avg defaults_rev_hit
  by code_simp

lemma defaults_leg_rev: "leg_rev b64 (read_sliders b64 slider_defaults) = 325"
  unfolding leg_rev_def defaults_c_tv defaults_c_pilot defaults_flop_rate defaults_hit_rate defaults_avg_rate defaults_rev_flop defaults_rev_avg defaults_rev_hit defaults_leg_cost
  by code_simp

lemma defaults_leg_roi: "leg_roi b64 (read_sliders b64 slider_defaults) = - 175"
  unfolding leg_roi_def defaults_c_tv defaults_c_pilot defaults_flop_rate defaults_hit_rate defaults_avg_rate defaults_rev_flop defaults_rev_avg defaults_rev_hit defaults_leg_cost defaults_leg_rev
  by code_simp

lemma defaults_pilot_spend: "pilot_spend b64 (read_sliders b64 slider_defaults) = 20"
  unfolding pilot_spend_def defaults_c_tv defaults_c_pilot defaults_flop_rate defaults_hit_rate defaults_avg_rate defaults_rev_flop defaults_rev_avg defaults_rev_hit defaults_leg_cost defaults_leg_rev defaults_leg_roi
  by code_simp

lemma defaults_cost_avg_show: "cost_avg_show b64 (read_sliders b64 slider_defaults) = 89 / 2"
  unfolding cost_avg_show_def defaults_c_tv defaults_c_pilot defaults_flop_rate defaults_hit_rate defaults_avg_rate defaults_rev_flop defaults_rev_avg defaults_rev_hit defaults_leg_cost defaults_leg_rev defaults_leg_roi defaults_pilot_spend
  by code_simp

lemma defaults_cost_hit_show: "cost_hit_show b64 (read_sliders b64 slider_defaults) = 62"
  unfolding cost_hit_show_def defaults_c_tv defaults_c_pilot defaults_flop_rate defaults_hit_rate defaults_avg_rate defaults_rev_flop defaults_rev_avg defaults_rev_hit defaults_leg_cost defaults_leg_rev defaults_leg_roi defaults_pilot_spend defaults_cost_avg_show
  by code_simp

lemma defaults_prop_cost_avg: "prop_cost_avg b64 (read_sliders b64 slider_defaults) = 4697113673859073 / 35184372088832"
  unfolding prop_cost_avg_def defaults_c_tv defaults_c_pilot defaults_flop_rate defaults_hit_rate defaults_avg_rate defaults_rev_flop defaults_rev_avg defaults_rev_hit defaults_leg_cost defaults_leg_rev defaults_leg_roi defaults_pilot_spend defaults_cost_avg_show defaults_cost_hit_show
  by code_simp

lemma defaults_prop_cost_hits: "prop_cost_hits b64 (read_sliders b64 slider_defaults) = 62"
  unfolding prop_cost_hits_def defaults_c_tv defaults_c_pilot defaults_flop_rate defaults_hit_rate defaults_avg_rate defaults_rev_flop defaults_rev_avg defaults_rev_hit defaults_leg_cost defaults_leg_rev defaults_leg_roi defaults_pilot_spend defaults_cost_avg_show defaults_cost_hit_show defaults_prop_cost_avg
  by code_simp

lemma defaults_prop_total_cost: "prop_total_cost b64 (read_sliders b64 slider_defaults) = 7582232185143297 / 35184372088832"
  unfolding prop_total_cost_def defaults_c_tv defaults_c_pilot defaults_flop_rate defaults_hit_rate defaults_avg_rate defaults_rev_flop defaults_rev_avg defaults_rev_hit defaults_leg_cost defaults_leg_rev defaults_leg_roi defaults_pilot_spend defaults_cost_avg_show defaults_cost_hit_show defaults_prop_cost_avg defaults_prop_cost_hits
  by code_simp

lemma defaults_prop_rev: "prop_rev b64 (read_sliders b64 slider_defaults) = 4661929301770241 / 17592186044416"
  unfolding prop_rev_def defaults_c_tv defaults_c_pilot defaults_flop_rate defaults_hit_rate defaults_avg_rate defaults_rev_flop defaults_rev_avg defaults_rev_hit defaults_leg_cost defaults_leg_rev defaults_leg_roi defaults_pilot_spend defaults_cost_avg_show defaults_cost_hit_show defaults_prop_cost_avg defaults_prop_cost_hits defaults_prop_total_cost
  by code_simp

lemma defaults_prop_roi: "prop_roi b64 (read_sliders b64 slider_defaults) = 1741626418397185 / 35184372088832"
  unfolding prop_roi_def defaults_c_tv defaults_c_pilot defaults_flop_rate defaults_hit_rate defaults_avg_rate defaults_rev_flop defaults_rev_avg defaults_rev_hit defaults_leg_cost defaults_leg_rev defaults_leg_roi defaults_pilot_spend defaults_cost_avg_show defaults_cost_hit_show defaults_prop_cost_avg defaults_prop_cost_hits defaults_prop_total_cost defaults_prop_rev
  by code_simp

lemma defaults_cash_freed: "cash_freed b64 (read_sliders b64 slider_defaults) = 7898891533942785 / 35184372088832"
  unfolding cash_freed_def defaults_c_tv defaults_c_pilot defaults_flop_rate defaults_hit_rate defaults_avg_rate defaults_rev_flop defaults_rev_avg defaults_rev_hit defaults_leg_cost defaults_leg_rev defaults_leg_roi defaults_pilot_spend defaults_cost_avg_show defaults_cost_hit_show defaults_prop_cost_avg defaults_prop_cost_hits defaults_prop_total_cost defaults_prop_rev defaults_prop_roi
  by code_simp

lemma defaults_savings_on_flops: "savings_on_flops b64 (read_sliders b64 slider_defaults) = 300"
  unfolding savings_on_flops_def defaults_c_tv defaults_c_pilot defaults_flop_rate defaults_hit_rate defaults_avg_rate defaults_rev_flop defaults_rev_avg defaults_rev_hit defaults_leg_cost defaults_leg_rev defaults_leg_roi defaults_pilot_spend defaults_cost_avg_show defaults_cost_hit_show defaults_prop_cost_avg defaults_prop_cost_hits defaults_prop_total_cost defaults_prop_rev defaults_prop_roi defaults_cash_freed
  by code_simp

lemma defaults_cost_of_piloting: "cost_of_piloting b64 (read_sliders b64 slider_defaults) = - 20"
  unfolding cost_of_piloting_def defaults_c_tv defaults_c_pilot defaults_flop_rate defaults_hit_rate defaults_avg_rate defaults_rev_flop defaults_rev_avg defaults_rev_hit defaults_leg_cost defaults_leg_rev defaults_leg_roi defaults_pilot_spend defaults_cost_avg_show defaults_cost_hit_show defaults_prop_cost_avg defaults_prop_cost_hits defaults_prop_total_cost defaults_prop_rev defaults_prop_roi defaults_cash_freed defaults_savings_on_flops
  by code_simp

lemma defaults_contract_variance: "contract_variance b64 (read_sliders b64 slider_defaults) = - (49 / 2)"
  unfolding contract_variance_def defaults_c_tv defaults_c_pilot defaults_flop_rate defaults_hit_rate defaults_avg_rate defaults_rev_flop defaults_rev_avg defaults_rev_hit defaults_leg_cost defaults_leg_rev defaults_leg_roi defaults_pilot_spend defaults_cost_avg_show defaults_cost_hit_show defaults_prop_cost_avg defaults_prop_cost_hits defaults_prop_total_cost defaults_prop_rev defaults_prop_roi defaults_cash_freed defaults_savings_on_flops defaults_cost_of_piloting
  by code_simp

lemma defaults_lost_salvage_rev: "lost_salvage_rev b64 (read_sliders b64 slider_defaults) = - 60"
  unfolding lost_salvage_rev_def defaults_c_tv defaults_c_pilot defaults_flop_rate defaults_hit_rate defaults_avg_rate defaults_rev_flop defaults_rev_avg defaults_rev_hit defaults_leg_cost defaults_leg_rev defaults_leg_roi defaults_pilot_spend defaults_cost_avg_show defaults_cost_hit_show defaults_prop_cost_avg defaults_prop_cost_hits defaults_prop_total_cost defaults_prop_rev defaults_prop_roi defaults_cash_freed defaults_savings_on_flops defaults_cost_of_piloting defaults_contract_variance
  by code_simp


section \<open>Binary64 evaluation at two other slider positions\<close>

lemma boundary_flop_rate:
  "flop_rate (read_sliders b64 boundary_sliders) = 3602879701896397 / 4503599627370496"
  by code_simp

lemma boundary_hit_rate:
  "hit_rate (read_sliders b64 boundary_sliders) = 3602879701896397 / 18014398509481984"
  by code_simp

lemma boundary_avg_rate:
  "avg_rate b64 (read_sliders b64 boundary_sliders) = - (1 / 18014398509481984)"
  unfolding avg_rate_def boundary_flop_rate boundary_hit_rate
  by code_simp

lemma boundary_rate_sum:
  "fadd b64 (flop_rate (read_sliders b64 boundary_sliders))
            (hit_rate (read_sliders b64 boundary_sliders)) = 1"
  unfolding boundary_flop_rate boundary_hit_rate
  by code_simp

lemma dominated_c_tv: "c_tv (read_sliders b64 dominated_sliders) = 20"
  by code_simp

lemma dominated_c_pilot: "c_pilot (read_sliders b64 dominated_sliders) = 5"
  by code_simp

lemma dominated_flop_rate: "flop_rate (read_sliders b64 dominated_sliders) = 5404319552844595 / 18014398509481984"
  by code_simp

lemma dominated_hit_rate: "hit_rate (read_sliders b64 dominated_sliders) = 5404319552844595 / 18014398509481984"
  by code_simp

lemma dominated_avg_rate: "avg_rate b64 (read_sliders b64 dominated_sliders) = 7205759403792793 / 18014398509481984"
  unfolding avg_rate_def dominated_c_tv dominated_c_pilot dominated_flop_rate dominated_hit_rate
  by code_simp

lemma dominated_rev_flop: "rev_flop b64 (read_sliders b64 dominated_sliders) = 4"
  unfolding rev_flop_def dominated_c_tv dominated_c_pilot dominated_flop_rate dominated_hit_rate dominated_avg_rate
  by code_simp

lemma dominated_rev_avg: "rev_avg b64 (read_sliders b64 dominated_sliders) = 22"
  unfolding rev_avg_def dominated_c_tv dominated_c_pilot dominated_flop_rate dominated_hit_rate dominated_avg_rate dominated_rev_flop
  by code_simp

lemma dominated_rev_hit: "rev_hit b64 (read_sliders b64 dominated_sliders) = 40"
  unfolding rev_hit_def dominated_c_tv dominated_c_pilot dominated_flop_rate dominated_hit_rate dominated_avg_rate dominated_rev_flop dominated_rev_avg
  by code_simp

lemma dominated_leg_cost: "leg_cost b64 (read_sliders b64 dominated_sliders) = 200"
  unfolding leg_cost_def dominated_c_tv dominated_c_pilot dominated_flop_rate dominated_hit_rate dominated_avg_rate dominated_rev_flop dominated_rev_avg dominated_rev_hit
  by code_simp

lemma dominated_leg_rev: "leg_rev b64 (read_sliders b64 dominated_sliders) = 220"
  unfolding leg_rev_def dominated_c_tv dominated_c_pilot dominated_flop_rate dominated_hit_rate dominated_avg_rate dominated_rev_flop dominated_rev_avg dominated_rev_hit dominated_leg_cost
  by code_simp

lemma dominated_leg_roi: "leg_roi b64 (read_sliders b64 dominated_sliders) = 20"
  unfolding leg_roi_def dominated_c_tv dominated_c_pilot dominated_flop_rate dominated_hit_rate dominated_avg_rate dominated_rev_flop dominated_rev_avg dominated_rev_hit dominated_leg_cost dominated_leg_rev
  by code_simp

lemma dominated_pilot_spend: "pilot_spend b64 (read_sliders b64 dominated_sliders) = 50"
  unfolding pilot_spend_def dominated_c_tv dominated_c_pilot dominated_flop_rate dominated_hit_rate dominated_avg_rate dominated_rev_flop dominated_rev_avg dominated_rev_hit dominated_leg_cost dominated_leg_rev dominated_leg_roi
  by code_simp

lemma dominated_cost_avg_show: "cost_avg_show b64 (read_sliders b64 dominated_sliders) = 22"
  unfolding cost_avg_show_def dominated_c_tv dominated_c_pilot dominated_flop_rate dominated_hit_rate dominated_avg_rate dominated_rev_flop dominated_rev_avg dominated_rev_hit dominated_leg_cost dominated_leg_rev dominated_leg_roi dominated_pilot_spend
  by code_simp

lemma dominated_cost_hit_show: "cost_hit_show b64 (read_sliders b64 dominated_sliders) = 29"
  unfolding cost_hit_show_def dominated_c_tv dominated_c_pilot dominated_flop_rate dominated_hit_rate dominated_avg_rate dominated_rev_flop dominated_rev_avg dominated_rev_hit dominated_leg_cost dominated_leg_rev dominated_leg_roi dominated_pilot_spend dominated_cost_avg_show
  by code_simp

lemma dominated_prop_cost_avg: "prop_cost_avg b64 (read_sliders b64 dominated_sliders) = 6192449487634431 / 70368744177664"
  unfolding prop_cost_avg_def dominated_c_tv dominated_c_pilot dominated_flop_rate dominated_hit_rate dominated_avg_rate dominated_rev_flop dominated_rev_avg dominated_rev_hit dominated_leg_cost dominated_leg_rev dominated_leg_roi dominated_pilot_spend dominated_cost_avg_show dominated_cost_hit_show
  by code_simp

lemma dominated_prop_cost_hits: "prop_cost_hits b64 (read_sliders b64 dominated_sliders) = 87"
  unfolding prop_cost_hits_def dominated_c_tv dominated_c_pilot dominated_flop_rate dominated_hit_rate dominated_avg_rate dominated_rev_flop dominated_rev_avg dominated_rev_hit dominated_leg_cost dominated_leg_rev dominated_leg_roi dominated_pilot_spend dominated_cost_avg_show dominated_cost_hit_show dominated_prop_cost_avg
  by code_simp

lemma dominated_prop_total_cost: "prop_total_cost b64 (read_sliders b64 dominated_sliders) = 225"
  unfolding prop_total_cost_def dominated_c_tv dominated_c_pilot dominated_flop_rate dominated_hit_rate dominated_avg_rate dominated_rev_flop dominated_rev_avg dominated_rev_hit dominated_leg_cost dominated_leg_rev dominated_leg_roi dominated_pilot_spend dominated_cost_avg_show dominated_cost_hit_show dominated_prop_cost_avg dominated_prop_cost_hits
  by code_simp

lemma dominated_prop_rev: "prop_rev b64 (read_sliders b64 dominated_sliders) = 208"
  unfolding prop_rev_def dominated_c_tv dominated_c_pilot dominated_flop_rate dominated_hit_rate dominated_avg_rate dominated_rev_flop dominated_rev_avg dominated_rev_hit dominated_leg_cost dominated_leg_rev dominated_leg_roi dominated_pilot_spend dominated_cost_avg_show dominated_cost_hit_show dominated_prop_cost_avg dominated_prop_cost_hits dominated_prop_total_cost
  by code_simp

lemma dominated_prop_roi: "prop_roi b64 (read_sliders b64 dominated_sliders) = - 17"
  unfolding prop_roi_def dominated_c_tv dominated_c_pilot dominated_flop_rate dominated_hit_rate dominated_avg_rate dominated_rev_flop dominated_rev_avg dominated_rev_hit dominated_leg_cost dominated_leg_rev dominated_leg_roi dominated_pilot_spend dominated_cost_avg_show dominated_cost_hit_show dominated_prop_cost_avg dominated_prop_cost_hits dominated_prop_total_cost dominated_prop_rev
  by code_simp

lemma dominated_cash_freed: "cash_freed b64 (read_sliders b64 dominated_sliders) = - 37"
  unfolding cash_freed_def dominated_c_tv dominated_c_pilot dominated_flop_rate dominated_hit_rate dominated_avg_rate dominated_rev_flop dominated_rev_avg dominated_rev_hit dominated_leg_cost dominated_leg_rev dominated_leg_roi dominated_pilot_spend dominated_cost_avg_show dominated_cost_hit_show dominated_prop_cost_avg dominated_prop_cost_hits dominated_prop_total_cost dominated_prop_rev dominated_prop_roi
  by code_simp

section \<open>The claims\<close>

text \<open>
  Claim C1: for every valid input the four waterfall steps (saved TV production on flops,
  micro-pilot costs, lost salvage revenue, contract impact), added one after the other to
  the legacy ROI, end at the proposed ROI, that is they sum to
  \<open>prop_roi - leg_roi\<close> up to \<open>10^(-9)\<close>.

  The script does not do this. With the sliders at their defaults the running total
  started at \<open>leg_roi = -175\<close> ends at 20.5, while \<open>prop_roi\<close> is 49.5: the bars of the
  bridge miss the figure written on the total bar by 29. This holds in exact arithmetic
  and, with the same figures up to rounding, for the doubles the interpreter computes.
\<close>

theorem waterfall_misses_prop_roi_at_defaults:
  "leg_roi exact (read_sliders exact slider_defaults) +
     savings_on_flops exact (read_sliders exact slider_defaults) +
     cost_of_piloting exact (read_sliders exact slider_defaults) +
     lost_salvage_rev exact (read_sliders exact slider_defaults) +
     contract_variance exact (read_sliders exact slider_defaults) = (20.5 :: real) \<and>
   prop_roi exact (read_sliders exact slider_defaults) = (49.5 :: real) \<and>
   leg_roi b64 (read_sliders b64 slider_defaults) +
     savings_on_flops b64 (read_sliders b64 slider_defaults) +
     cost_of_piloting b64 (read_sliders b64 slider_defaults) +
     lost_salvage_rev b64 (read_sliders b64 slider_defaults) +
     contract_variance b64 (read_sliders b64 slider_defaults) = 20.5 \<and>
   within_tolerance (prop_roi b64 (read_sliders b64 slider_defaults)) 49.5"
proof -
  have "leg_roi exact (read_sliders exact slider_defaults) +
     savings_on_flops exact (read_sliders exact slider_defaults) +
     cost_of_piloting exact (read_sliders exact slider_defaults) +
     lost_salvage_rev exact (read_sliders exact slider_defaults) +
     contract_variance exact (read_sliders exact slider_defaults) = (20.5 :: real)"
    by (simp add: read_defaults_exact waterfall_defs legacy_defs proposed_defs revenue_defs
          arith_defs)
  moreover have "prop_roi exact (read_sliders exact slider_defaults) = (49.5 :: real)"
    by (simp add: read_defaults_exact proposed_defs revenue_defs arith_defs)
  moreover have "leg_roi b64 (read_sliders b64 slider_defaults) +
     savings_on_flops b64 (read_sliders b64 slider_defaults) +
     cost_of_piloting b64 (read_sliders b64 slider_defaults) +
     lost_salvage_rev b64 (read_sliders b64 slider_defaults) +
     contract_variance b64 (read_sliders b64 slider_defaults) = 20.5"
    by (simp add: defaults_leg_roi defaults_savings_on_flops defaults_cost_of_piloting
          defaults_lost_salvage_rev defaults_contract_variance)
  moreover have "within_tolerance (prop_roi b64 (read_sliders b64 slider_defaults)) 49.5"
    by (simp add: within_tolerance_def defaults_prop_roi)
  ultimately show ?thesis by simp
qed

text \<open>
  Claim C2: for every valid input the fourth step, the contract impact, equals the
  residual \<open>prop_roi - leg_roi - savings_on_flops - cost_of_piloting - lost_salvage_rev\<close>.

  The script computes \<^verbatim>\<open>contract_variance\<close> by a formula of its own, and the two
  disagree. With the sliders at their defaults \<^verbatim>\<open>contract_variance\<close> is -24.5, while the
  residual is 4.5, in exact arithmetic and (up to rounding) in binary64.
\<close>

theorem contract_variance_is_not_residual_at_defaults:
  "contract_variance exact (read_sliders exact slider_defaults) = (- 24.5 :: real) \<and>
   prop_roi exact (read_sliders exact slider_defaults) -
     leg_roi exact (read_sliders exact slider_defaults) -
     savings_on_flops exact (read_sliders exact slider_defaults) -
     cost_of_piloting exact (read_sliders exact slider_defaults) -
     lost_salvage_rev exact (read_sliders exact slider_defaults) = (4.5 :: real) \<and>
   contract_variance b64 (read_sliders b64 slider_defaults) = - 24.5 \<and>
   within_tolerance
     (prop_roi b64 (read_sliders b64 slider_defaults) -
      leg_roi b64 (read_sliders b64 slider_defaults) -
      savings_on_flops b64 (read_sliders b64 slider_defaults) -
      cost_of_piloting b64 (read_sliders b64 slider_defaults) -
      lost_salvage_rev b64 (read_sliders b64 slider_defaults)) 4.5"
proof -
  have "contract_variance exact (read_sliders exact slider_defaults) = (- 24.5 :: real)"
    by (simp add: read_defaults_exact waterfall_defs legacy_defs proposed_defs revenue_defs
          arith_defs)
  moreover have "prop_roi exact (read_sliders exact slider_defaults) -
     leg_roi exact (read_sliders exact slider_defaults) -
     savings_on_flops exact (read_sliders exact slider_defaults) -
     cost_of_piloting exact (read_sliders exact slider_defaults) -
     lost_salvage_rev exact (read_sliders exact slider_defaults) = (4.5 :: real)"
    by (simp add: read_defaults_exact waterfall_defs legacy_defs proposed_defs revenue_defs
          arith_defs)
  moreover have "contract_variance b64 (read_sliders b64 slider_defaults) = - 24.5"
    by (simp add: defaults_contract_variance)
  moreover have "within_tolerance
     (prop_roi b64 (read_sliders b64 slider_defaults) -
      leg_roi b64 (read_sliders b64 slider_defaults) -
      savings_on_flops b64 (read_sliders b64 slider_defaults) -
      cost_of_piloting b64 (read_sliders b64 slider_defaults) -
      lost_salvage_rev b64 (read_sliders b64 slider_defaults)) 4.5"
    by (simp add: within_tolerance_def defaults_prop_roi defaults_leg_roi
          defaults_savings_on_flops defaults_cost_of_piloting defaults_lost_salvage_rev)
  ultimately show ?thesis by simp
qed

text \<open>
  Claim C3: evaluation fails, producing no part of the result, if and only if
  \<open>flop_rate + hit_rate > 1\<close>; at the boundary \<open>flop_rate + hit_rate = 1\<close> it succeeds.

  In exact arithmetic this is \<open>evaluate_exact_stops_iff\<close>. The interpreter, however,
  stops at a boundary the sliders can reach: with the flop slider at 80 and the
  blockbuster slider at 20 the sliders are within their ranges, the float sum of the two
  rates is exactly 1, and \<^verbatim>\<open>1.0 - flop_rate - hit_rate\<close> rounds to \<open>-2^(-54)\<close>, so the
  script shows its error and renders nothing, where exact arithmetic renders the page.
\<close>

theorem boundary_80_20_stops:
  "slider_ok boundary_sliders \<and>
   fadd b64 (flop_rate (read_sliders b64 boundary_sliders))
            (hit_rate (read_sliders b64 boundary_sliders)) = 1 \<and>
   app b64 boundary_sliders = Inl Stopped \<and>
   app (exact :: real \<Rightarrow> real) boundary_sliders \<noteq> Inl Stopped"
proof -
  have "slider_ok boundary_sliders"
    by (simp add: slider_ok_def boundary_sliders_def)
  moreover have "app b64 boundary_sliders = Inl Stopped"
    by (simp add: app_def evaluate_def boundary_avg_rate)
  moreover have "app (exact :: real \<Rightarrow> real) boundary_sliders \<noteq> Inl Stopped"
    by (simp add: app_def evaluate_exact_stops_iff read_sliders_def boundary_sliders_def
          arith_defs)
  ultimately show ?thesis using boundary_rate_sum by simp
qed

text \<open>
  Claim C4: with \<open>rev_flop = 0.2 * tv_cost\<close>, \<open>rev_avg = 1.1 * tv_cost\<close>,
  \<open>rev_hit = 2.0 * tv_cost\<close> and \<open>a = 1 - flop_rate - hit_rate\<close>, the legacy strategy has
  cost \<open>N * tv_cost\<close>, revenue \<open>N * (f * rev_flop + a * rev_avg + h * rev_hit)\<close> and
  ROI revenue minus cost. Proved in exact arithmetic, for every input (valid or not).
\<close>

theorem legacy_formulas:
  "rev_flop exact p = 0.2 * c_tv p \<and>
   rev_avg exact p = 1.1 * c_tv p \<and>
   rev_hit exact p = 2.0 * c_tv p \<and>
   avg_rate exact p = 1 - flop_rate p - hit_rate p \<and>
   leg_cost exact p = N * c_tv p \<and>
   leg_rev exact p =
     N * (flop_rate p * rev_flop exact p + avg_rate exact p * rev_avg exact p +
          hit_rate p * rev_hit exact p) \<and>
   leg_roi exact p = leg_rev exact p - leg_cost exact p"
  by (simp add: legacy_defs revenue_defs arith_defs)

text \<open>
  Claim C5: the proposed strategy has pilot spend \<open>N * pilot_cost\<close>, production cost
  \<open>(N * a) * (pilot_cost + 0.85 * tv_cost) + (N * h) * (pilot_cost + 1.20 * tv_cost)\<close>
  (in the script the sum of \<^verbatim>\<open>prop_cost_avg\<close> and \<^verbatim>\<open>prop_cost_hits\<close>), total cost pilot
  spend plus production cost, revenue \<open>N * a * rev_avg + N * h * rev_hit\<close> with nothing
  earned on flops, and ROI revenue minus cost. Proved in exact arithmetic, for every
  input.
\<close>

theorem proposed_formulas:
  "pilot_spend exact p = N * c_pilot p \<and>
   prop_cost_avg exact p + prop_cost_hits exact p =
     (N * avg_rate exact p) * (c_pilot p + 0.85 * c_tv p) +
     (N * hit_rate p) * (c_pilot p + 1.20 * c_tv p) \<and>
   prop_total_cost exact p =
     pilot_spend exact p + (prop_cost_avg exact p + prop_cost_hits exact p) \<and>
   prop_rev exact p =
     N * avg_rate exact p * rev_avg exact p + N * hit_rate p * rev_hit exact p \<and>
   prop_roi exact p = prop_rev exact p - prop_total_cost exact p"
  by (simp add: proposed_defs arith_defs mult.commute)

text \<open>
  Claim C6: on the reference inputs \<open>tv_cost = 50\<close>, \<open>pilot_cost = 2.0\<close>,
  \<open>flop_rate = 0.60\<close>, \<open>hit_rate = 0.10\<close>, \<open>N = 10\<close> (the slider defaults) evaluation
  yields \<open>avg_rate = 0.30\<close>, legacy cost 500, revenue 325 and ROI -175, pilot spend 20,
  production cost 195.5, proposed cost 215.5, revenue 265 and ROI 49.5, and
  \<open>cash_freed = 224.5\<close>, within floating-point tolerance.

  The figures are exact in exact arithmetic; the doubles the interpreter computes are
  within \<open>10^(-9)\<close> of them, and the script does not stop.
\<close>

theorem reference_scenario:
  "read_sliders exact slider_defaults =
     \<lparr>c_tv = 50, c_pilot = 2, flop_rate = 0.60, hit_rate = 0.10 :: real\<rparr> \<and>
   (N :: real) = 10 \<and>
   avg_rate exact (read_sliders exact slider_defaults) = (0.30 :: real) \<and>
   leg_cost exact (read_sliders exact slider_defaults) = (500 :: real) \<and>
   leg_rev exact (read_sliders exact slider_defaults) = (325 :: real) \<and>
   leg_roi exact (read_sliders exact slider_defaults) = (- 175 :: real) \<and>
   pilot_spend exact (read_sliders exact slider_defaults) = (20 :: real) \<and>
   prop_cost_avg exact (read_sliders exact slider_defaults) +
     prop_cost_hits exact (read_sliders exact slider_defaults) = (195.5 :: real) \<and>
   prop_total_cost exact (read_sliders exact slider_defaults) = (215.5 :: real) \<and>
   prop_rev exact (read_sliders exact slider_defaults) = (265 :: real) \<and>
   prop_roi exact (read_sliders exact slider_defaults) = (49.5 :: real) \<and>
   cash_freed exact (read_sliders exact slider_defaults) = (224.5 :: real) \<and>
   app b64 slider_defaults \<noteq> Inl Stopped \<and>
   within_tolerance (avg_rate b64 (read_sliders b64 slider_defaults)) 0.30 \<and>
   within_tolerance (leg_cost b64 (read_sliders b64 slider_defaults)) 500 \<and>
   within_tolerance (leg_rev b64 (read_sliders b64 slider_defaults)) 325 \<and>
   within_tolerance (leg_roi b64 (read_sliders b64 slider_defaults)) (- 175) \<and>
   within_tolerance (pilot_spend b64 (read_sliders b64 slider_defaults)) 20 \<and>
   within_tolerance
     (prop_cost_avg b64 (read_sliders b64 slider_defaults) +
      prop_cost_hits b64 (read_sliders b64 slider_defaults)) 195.5 \<and>
   within_tolerance (prop_total_cost b64 (read_sliders b64 slider_defaults)) 215.5 \<and>
   within_tolerance (prop_rev b64 (read_sliders b64 slider_defaults)) 265 \<and>
   within_tolerance (prop_roi b64 (read_sliders b64 slider_defaults)) 49.5 \<and>
   within_tolerance (cash_freed b64 (read_sliders b64 slider_defaults)) 224.5"
proof -
  have inputs: "read_sliders exact slider_defaults =
      \<lparr>c_tv = 50, c_pilot = 2, flop_rate = 0.60, hit_rate = 0.10 :: real\<rparr>"
    by (rule read_defaults_exact)
  have legacy:
    "avg_rate exact (read_sliders exact slider_defaults) = (0.30 :: real)"
    "leg_cost exact (read_sliders exact slider_defaults) = (500 :: real)"
    "leg_rev exact (read_sliders exact slider_defaults) = (325 :: real)"
    "leg_roi exact (read_sliders exact slider_defaults) = (- 175 :: real)"
    by (simp_all add: read_defaults_exact legacy_defs revenue_defs arith_defs)
  have proposed:
    "pilot_spend exact (read_sliders exact slider_defaults) = (20 :: real)"
    "prop_cost_avg exact (read_sliders exact slider_defaults) +
       prop_cost_hits exact (read_sliders exact slider_defaults) = (195.5 :: real)"
    "prop_total_cost exact (read_sliders exact slider_defaults) = (215.5 :: real)"
    "prop_rev exact (read_sliders exact slider_defaults) = (265 :: real)"
    "prop_roi exact (read_sliders exact slider_defaults) = (49.5 :: real)"
    by (simp_all add: read_defaults_exact proposed_defs revenue_defs arith_defs)
  have freed: "cash_freed exact (read_sliders exact slider_defaults) = (224.5 :: real)"
    by (simp add: cash_freed_def proposed(5) legacy(4) arith_defs)
  have runs: "app b64 slider_defaults \<noteq> Inl Stopped"
    by (simp add: app_def evaluate_def defaults_avg_rate)
  have legacy64:
    "within_tolerance (avg_rate b64 (read_sliders b64 slider_defaults)) 0.30"
    "within_tolerance (leg_cost b64 (read_sliders b64 slider_defaults)) 500"
    "within_tolerance (leg_rev b64 (read_sliders b64 slider_defaults)) 325"
    "within_tolerance (leg_roi b64 (read_sliders b64 slider_defaults)) (- 175)"
    by (simp_all add: within_tolerance_def defaults_avg_rate defaults_leg_cost
          defaults_leg_rev defaults_leg_roi)
  have proposed64:
    "within_tolerance (pilot_spend b64 (read_sliders b64 slider_defaults)) 20"
    "within_tolerance
       (prop_cost_avg b64 (read_sliders b64 slider_defaults) +
        prop_cost_hits b64 (read_sliders b64 slider_defaults)) 195.5"
    "within_tolerance (prop_total_cost b64 (read_sliders b64 slider_defaults)) 215.5"
    "within_tolerance (prop_rev b64 (read_sliders b64 slider_defaults)) 265"
    "within_tolerance (prop_roi b64 (read_sliders b64 slider_defaults)) 49.5"
    "within_tolerance (cash_freed b64 (read_sliders b64 slider_defaults)) 224.5"
    by (simp_all add: within_tolerance_def defaults_pilot_spend defaults_prop_cost_avg
          defaults_prop_cost_hits defaults_prop_total_cost defaults_prop_rev
          defaults_prop_roi defaults_cash_freed)
  have n: "(N :: real) = 10" by (simp add: N_def)
  show ?thesis
    by (intro conjI inputs n legacy proposed freed runs legacy64 proposed64)
qed

text \<open>
  Claim C7: the legacy strategy wastes \<open>N * f * tv_cost\<close>, the proposed strategy
  \<open>N * f * pilot_cost\<close>, and for each strategy wasted plus productive capital is the
  strategy's total cost. Proved in exact arithmetic, for every input.
\<close>

theorem capital_split:
  "leg_waste exact p = N * flop_rate p * c_tv p \<and>
   prop_waste exact p = N * flop_rate p * c_pilot p \<and>
   leg_waste exact p + leg_productive exact p = leg_cost exact p \<and>
   prop_waste exact p + prop_productive exact p = prop_total_cost exact p"
  by (simp add: capital_defs arith_defs)

text \<open>
  Claim C8: of two valid inputs that agree on hit rate, TV cost and pilot cost (the
  portfolio size is the constant \<open>N\<close>), the one with the strictly larger flop rate has
  strictly smaller legacy revenue and strictly smaller legacy ROI. Proved in exact
  arithmetic.
\<close>

theorem legacy_decreasing_in_flop_rate:
  assumes "valid_input p" and "valid_input q"
    and "hit_rate p = hit_rate q" and "c_tv p = c_tv q" and "c_pilot p = c_pilot q"
    and "flop_rate p < flop_rate q"
  shows "leg_rev exact q < leg_rev exact p \<and> leg_roi exact q < leg_roi exact p"
proof -
  have tv: "0 < c_tv q"
    using assms(2) by (simp add: valid_input_def)
  have "11 / 10 - 9 / 10 * flop_rate q + 9 / 10 * hit_rate q
      < 11 / 10 - 9 / 10 * flop_rate p + 9 / 10 * hit_rate q"
    using assms(6) by simp
  then have rev: "leg_rev exact q < leg_rev exact p"
    unfolding leg_rev_exact assms(3,4) using tv by simp
  have "leg_cost exact q = leg_cost exact p"
    by (simp add: leg_cost_def assms(4))
  with rev show ?thesis
    by (simp add: leg_roi_def arith_defs)
qed

theorem legacy_decreasing_in_flop_rate_witness:
  "valid_input \<lparr>c_tv = 50, c_pilot = 2, flop_rate = 0.3, hit_rate = 0.1 :: real\<rparr> \<and>
   valid_input \<lparr>c_tv = 50, c_pilot = 2, flop_rate = 0.6, hit_rate = 0.1 :: real\<rparr> \<and>
   leg_rev exact \<lparr>c_tv = 50, c_pilot = 2, flop_rate = 0.6, hit_rate = 0.1 :: real\<rparr>
     < leg_rev exact \<lparr>c_tv = 50, c_pilot = 2, flop_rate = 0.3, hit_rate = 0.1 :: real\<rparr> \<and>
   leg_roi exact \<lparr>c_tv = 50, c_pilot = 2, flop_rate = 0.6, hit_rate = 0.1 :: real\<rparr>
     < leg_roi exact \<lparr>c_tv = 50, c_pilot = 2, flop_rate = 0.3, hit_rate = 0.1 :: real\<rparr>"
proof -
  have p: "valid_input \<lparr>c_tv = 50, c_pilot = 2, flop_rate = 0.3, hit_rate = 0.1 :: real\<rparr>"
    by (simp add: valid_input_def)
  have q: "valid_input \<lparr>c_tv = 50, c_pilot = 2, flop_rate = 0.6, hit_rate = 0.1 :: real\<rparr>"
    by (simp add: valid_input_def)
  show ?thesis
    using p q legacy_decreasing_in_flop_rate [OF p q] by simp
qed

text \<open>
  Claim C9: for every valid input the proposed revenue is at most the legacy revenue;
  the difference is exactly \<open>N * flop_rate * rev_flop\<close>, which is not negative, and the
  two revenues are equal only when \<open>flop_rate * tv_cost = 0\<close>. Proved in exact
  arithmetic.
\<close>

theorem proposed_revenue_le_legacy:
  assumes "valid_input p"
  shows "prop_rev exact p \<le> leg_rev exact p \<and>
    leg_rev exact p - prop_rev exact p = N * flop_rate p * rev_flop exact p \<and>
    0 \<le> N * flop_rate p * rev_flop exact p \<and>
    (prop_rev exact p = leg_rev exact p \<longleftrightarrow> flop_rate p * c_tv p = 0)"
proof -
  have d: "leg_rev exact p - prop_rev exact p = N * flop_rate p * rev_flop exact p"
    by (simp add: leg_rev_exact prop_rev_exact rev_flop_def arith_defs field_simps)
  have e: "N * flop_rate p * rev_flop exact p = 2 * (flop_rate p * c_tv p)"
    by (simp add: rev_flop_def arith_defs)
  have nn: "0 \<le> flop_rate p * c_tv p"
    using assms by (simp add: valid_input_def)
  have z: "0 \<le> N * flop_rate p * rev_flop exact p"
    unfolding e using nn by simp
  have "prop_rev exact p \<le> leg_rev exact p"
    using d z by simp
  moreover have "prop_rev exact p = leg_rev exact p \<longleftrightarrow> flop_rate p * c_tv p = 0"
    using d e by auto
  ultimately show ?thesis
    using d z by simp
qed

theorem proposed_revenue_le_legacy_witness:
  "valid_input \<lparr>c_tv = 50, c_pilot = 2, flop_rate = 0.6, hit_rate = 0.1 :: real\<rparr> \<and>
   prop_rev exact \<lparr>c_tv = 50, c_pilot = 2, flop_rate = 0.6, hit_rate = 0.1 :: real\<rparr> = 265 \<and>
   leg_rev exact \<lparr>c_tv = 50, c_pilot = 2, flop_rate = 0.6, hit_rate = 0.1 :: real\<rparr> = 325 \<and>
   N * flop_rate \<lparr>c_tv = 50, c_pilot = 2, flop_rate = 0.6, hit_rate = 0.1 :: real\<rparr> *
     rev_flop exact \<lparr>c_tv = 50, c_pilot = 2, flop_rate = 0.6, hit_rate = 0.1 :: real\<rparr> = 60"
proof -
  have v: "valid_input \<lparr>c_tv = 50, c_pilot = 2, flop_rate = 0.6, hit_rate = 0.1 :: real\<rparr>"
    by (simp add: valid_input_def)
  have "prop_rev exact \<lparr>c_tv = 50, c_pilot = 2, flop_rate = 0.6, hit_rate = 0.1 :: real\<rparr> = 265"
    by (simp add: prop_rev_exact)
  moreover have
    "N * flop_rate \<lparr>c_tv = 50, c_pilot = 2, flop_rate = 0.6, hit_rate = 0.1 :: real\<rparr> *
       rev_flop exact \<lparr>c_tv = 50, c_pilot = 2, flop_rate = 0.6, hit_rate = 0.1 :: real\<rparr> = 60"
    by (simp add: rev_flop_def arith_defs)
  ultimately show ?thesis
    using v proposed_revenue_le_legacy [OF v] by simp
qed

text \<open>
  Claim C10: within the slider ranges there is a valid input at which
  \<open>cash_freed = prop_roi - leg_roi\<close> is strictly negative: TV cost 20, pilot cost 5.0,
  flop rate 0.30 and hit rate 0.30 give \<open>cash_freed = -37\<close>. So the proposed strategy
  does not beat the legacy strategy on every admissible input. The interpreter's double
  at these sliders is negative as well, and the script does not stop there.
\<close>

theorem proposed_can_lose:
  "\<exists>s. slider_ok s \<and>
     read_sliders exact s = \<lparr>c_tv = 20, c_pilot = 5, flop_rate = 0.30, hit_rate = 0.30 :: real\<rparr> \<and>
     valid_input (read_sliders exact s :: real params) \<and>
     cash_freed exact (read_sliders exact s) = (- 37 :: real) \<and>
     cash_freed exact (read_sliders exact s) =
       prop_roi exact (read_sliders exact s) - (leg_roi exact (read_sliders exact s) :: real) \<and>
     app b64 s \<noteq> Inl Stopped \<and>
     cash_freed b64 (read_sliders b64 s) < 0"
proof (intro exI [of _ dominated_sliders] conjI)
  show "slider_ok dominated_sliders"
    by (simp add: slider_ok_def dominated_sliders_def)
  show "read_sliders exact dominated_sliders =
      \<lparr>c_tv = 20, c_pilot = 5, flop_rate = 0.30, hit_rate = 0.30 :: real\<rparr>"
    by (rule read_dominated_exact)
  show "valid_input (read_sliders exact dominated_sliders :: real params)"
    by (simp add: read_dominated_exact valid_input_def)
  show "cash_freed exact (read_sliders exact dominated_sliders) = (- 37 :: real)"
    by (simp add: read_dominated_exact cash_freed_def legacy_defs proposed_defs revenue_defs
          arith_defs)
  show "cash_freed exact (read_sliders exact dominated_sliders) =
      prop_roi exact (read_sliders exact dominated_sliders) -
      (leg_roi exact (read_sliders exact dominated_sliders) :: real)"
    by (simp add: cash_freed_def arith_defs)
  show "app b64 dominated_sliders \<noteq> Inl Stopped"
    by (simp add: app_def evaluate_def dominated_avg_rate)
  show "cash_freed b64 (read_sliders b64 dominated_sliders) < 0"
    by (simp add: dominated_cash_freed)
qed

end
